theory Spec2Isabelle
  imports Complex_Main "HOL-Library.Sublist"
begin

section \<open>The dashboard client: src/frontend/src/App.js\<close>

text \<open>
  JavaScript numbers are modelled as \<^typ>\<open>real\<close>, strings as \<^typ>\<open>string\<close>, arrays as
  lists. React state is modelled by explicit state passing: every handler takes the state
  of the latest render and returns the next one, together with the Socket.IO events it
  emitted.
\<close>

subsection \<open>Constants\<close>

definition MAX_CHART_POINTS :: nat where
  "MAX_CHART_POINTS = 30"

text \<open>The object literal \<open>STATUS_COLORS\<close>, as its own properties in source order.\<close>

definition STATUS_COLORS :: "(string \<times> string) list" where
  "STATUS_COLORS =
     [(''Attentive'', ''#00ff88''),
      (''Drowsy'', ''#ff4444''),
      (''Yawning'', ''#ffaa00''),
      (''Distracted'', ''#ff6600''),
      (''No Face Detected'', ''#888888'')]"

subsection \<open>The \<open>status_update\<close> handler\<close>

text \<open>The handler destructures \<open>{ status, ear_score, mar_score }\<close> from the event.\<close>

record status_update =
  status :: string
  ear_score :: real
  mar_score :: real

record chart_point =
  time :: string
  score :: int
  ear :: real
  mar :: real

text \<open>\<open>Math.round\<close> rounds to the nearest integer, halves upwards.\<close>

definition Math_round :: "real \<Rightarrow> int" where
  "Math_round x = \<lfloor>x + 1 / 2\<rfloor>"

definition attentivenessScore :: "status_update \<Rightarrow> real" where
  "attentivenessScore d =
     (if status d = ''Drowsy'' then max 20 (ear_score d * 200)
      else if status d = ''Yawning'' then max 30 (100 - mar_score d * 100)
      else if status d = ''Distracted'' then 25
      else if status d = ''No Face Detected'' then 0
      else 100)"

text \<open>\<open>arr.slice(-n)\<close> for \<open>n > 0\<close> starts at index \<open>max (length - n) 0\<close>; the
  truncating subtraction of \<^typ>\<open>nat\<close> is that maximum.\<close>

definition slice_from_end :: "nat \<Rightarrow> 'a list \<Rightarrow> 'a list" where
  "slice_from_end n xs = drop (length xs - n) xs"

text \<open>The updater passed to \<open>setChartData\<close>; \<open>timestamp\<close> is the locale time string
  read from the clock.\<close>

definition new_chart_point :: "string \<Rightarrow> status_update \<Rightarrow> chart_point" where
  "new_chart_point timestamp d =
     \<lparr>time = timestamp,
      score = Math_round (attentivenessScore d),
      ear = ear_score d * 100,
      mar = mar_score d * 100\<rparr>"

definition setChartData :: "chart_point list \<Rightarrow> chart_point \<Rightarrow> chart_point list" where
  "setChartData prevData p = slice_from_end MAX_CHART_POINTS (prevData @ [p])"

subsection \<open>Component state, refs and the browser's interval timers\<close>

text \<open>The only event the client emits: \<open>socket.emit('video_frame', { frame: imageSrc })\<close>.\<close>

datatype emitted = video_frame (frame: string)

text \<open>
  The \<open>useState\<close> cells and the three refs of \<open>App\<close>. \<open>webcamRef\<close> records whether the
  ref is attached; \<open>socketRef\<close> is \<open>None\<close> for \<open>null\<close> and \<open>Some c\<close> for a socket whose
  \<open>connected\<close> property is \<open>c\<close>; \<open>captureIntervalRef\<close> holds an interval handle.
  \<open>timers\<close> is the browser's table of active intervals (handle, period in ms) and
  \<open>next_timer\<close> the next handle \<open>setInterval\<close> returns; handles are positive.
\<close>

record app_state =
  isConnected :: bool
  currentStatus :: string
  earScore :: real
  marScore :: real
  chartData :: "chart_point list"
  isLoggedIn :: bool
  isStreaming :: bool
  webcamRef :: bool
  socketRef :: "bool option"
  captureIntervalRef :: "nat option"
  timers :: "(nat \<times> nat) list"
  next_timer :: nat

definition initial_state :: app_state where
  "initial_state =
     \<lparr>isConnected = False, currentStatus = ''Waiting...'', earScore = 0, marScore = 0,
      chartData = [], isLoggedIn = False, isStreaming = False,
      webcamRef = False, socketRef = None, captureIntervalRef = None,
      timers = [], next_timer = 1\<rparr>"

definition setInterval :: "nat \<Rightarrow> app_state \<Rightarrow> nat \<times> app_state" where
  "setInterval period s =
     (next_timer s,
      s\<lparr>timers := timers s @ [(next_timer s, period)], next_timer := Suc (next_timer s)\<rparr>)"

definition clearInterval :: "nat \<Rightarrow> app_state \<Rightarrow> app_state" where
  "clearInterval h s = s\<lparr>timers := filter (\<lambda>(i, _). i \<noteq> h) (timers s)\<rparr>"

text \<open>\<open>if (captureIntervalRef.current) { clearInterval(...); captureIntervalRef.current = null; }\<close>:
  \<open>null\<close> and the number 0 are falsy.\<close>

definition clear_capture_interval :: "app_state \<Rightarrow> app_state" where
  "clear_capture_interval s =
     (case captureIntervalRef s of
        None \<Rightarrow> s
      | Some h \<Rightarrow> if h \<noteq> 0 then (clearInterval h s)\<lparr>captureIntervalRef := None\<rparr> else s)"

text \<open>\<open>captureFrame\<close>; \<open>shot\<close> is what \<open>getScreenshot()\<close> returns on this call (\<open>None\<close> for
  \<open>null\<close>). The inner test \<open>if (imageSrc)\<close> also rejects the empty string.\<close>

definition captureFrame :: "app_state \<Rightarrow> string option \<Rightarrow> emitted list" where
  "captureFrame s shot =
     (if webcamRef s \<and> socketRef s = Some True then
        (case shot of
           None \<Rightarrow> []
         | Some imageSrc \<Rightarrow> if imageSrc \<noteq> [] then [video_frame imageSrc] else [])
      else [])"

definition toggleStreaming :: "app_state \<Rightarrow> app_state" where
  "toggleStreaming s =
     (if isStreaming s then
        (clear_capture_interval s)\<lparr>isStreaming := False, currentStatus := ''Paused''\<rparr>
      else
        (let (h, s1) = setInterval 200 s
         in s1\<lparr>captureIntervalRef := Some h, isStreaming := True\<rparr>))"

definition handleLogout :: "app_state \<Rightarrow> app_state" where
  "handleLogout s = (clear_capture_interval (s\<lparr>isLoggedIn := False\<rparr>))\<lparr>isStreaming := False\<rparr>"

definition on_status_update :: "app_state \<Rightarrow> string \<Rightarrow> status_update \<Rightarrow> app_state" where
  "on_status_update s timestamp d =
     s\<lparr>currentStatus := status d, earScore := ear_score d, marScore := mar_score d,
       chartData := setChartData (chartData s) (new_chart_point timestamp d)\<rparr>"

text \<open>
  What can happen to the mounted component. \<open>Mount stored\<close> runs the two mount effects
  (\<open>stored\<close>: a token and a user are in local storage); \<open>Tick h shot\<close> is the browser
  firing interval \<open>h\<close>, with the screenshot the webcam would return. An interval that is
  not in the timer table does not fire.
\<close>

datatype event =
    Mount bool
  | SocketConnect
  | SocketDisconnect
  | StatusUpdate string status_update
  | LoginSucceeded
  | ClickToggle
  | ClickLogout
  | Tick nat "string option"

fun step :: "app_state \<Rightarrow> event \<Rightarrow> app_state \<times> emitted list" where
  "step s (Mount stored) =
     (s\<lparr>socketRef := Some False, webcamRef := True, isLoggedIn := (isLoggedIn s \<or> stored)\<rparr>, [])"
| "step s SocketConnect =
     (case socketRef s of
        None \<Rightarrow> (s, [])
      | Some _ \<Rightarrow> (s\<lparr>socketRef := Some True, isConnected := True\<rparr>, []))"
| "step s SocketDisconnect =
     (case socketRef s of
        None \<Rightarrow> (s, [])
      | Some _ \<Rightarrow> (s\<lparr>socketRef := Some False, isConnected := False\<rparr>, []))"
| "step s (StatusUpdate timestamp d) = (on_status_update s timestamp d, [])"
| "step s LoginSucceeded = (s\<lparr>isLoggedIn := True\<rparr>, [])"
| "step s ClickToggle = (toggleStreaming s, [])"
| "step s ClickLogout = (handleLogout s, [])"
| "step s (Tick h shot) =
     (if h \<in> fst ` set (timers s) then (s, captureFrame s shot) else (s, []))"

text \<open>The state after a sequence of events, and everything emitted on the way.\<close>

definition exec :: "event list \<Rightarrow> app_state" where
  "exec evs = foldl (\<lambda>s e. fst (step s e)) initial_state evs"

fun run :: "app_state \<Rightarrow> event list \<Rightarrow> emitted list" where
  "run s [] = []"
| "run s (e # es) = snd (step s e) @ run (fst (step s e)) es"

text \<open>The events that are a \<open>status_update\<close> message from the server.\<close>

fun is_status_update :: "event \<Rightarrow> bool" where
  "is_status_update (StatusUpdate timestamp d) = True"
| "is_status_update e = False"

text \<open>
  What holds of the refs and the timer table in every state the component reaches: the
  only active interval is the one \<open>captureIntervalRef\<close> holds, it was set with period
  200, and \<open>isStreaming\<close> is true exactly while it is set.
\<close>

definition streaming_inv :: "app_state \<Rightarrow> bool" where
  "streaming_inv s =
     (timers s = (case captureIntervalRef s of None \<Rightarrow> [] | Some h \<Rightarrow> [(h, 200)])
      \<and> isStreaming s = (captureIntervalRef s \<noteq> None)
      \<and> captureIntervalRef s \<noteq> Some 0
      \<and> 0 < next_timer s
      \<and> webcamRef s = (socketRef s \<noteq> None))"

subsection \<open>The info box\<close>

text \<open>
  JSX children are text and \<open>{expression}\<close> fragments; React renders them concatenated.
  Each list item of the info box is a \<open><strong>\<close> heading followed by plain text
  (the arrow is written \<open>->\<close> here).
\<close>

datatype jsx_child = JText string | JExpr string

fun render_child :: "jsx_child \<Rightarrow> string" where
  "render_child (JText t) = t"
| "render_child (JExpr v) = v"

definition render :: "jsx_child list \<Rightarrow> string" where
  "render cs = concat (map render_child cs)"

definition info_box :: "(jsx_child list \<times> string) list" where
  "info_box =
     [([JText ''EAR '', JExpr ''<'', JText '' 0.22:''], '' Eyes closing -> Drowsy''),
      ([JText ''MAR '', JExpr ''>'', JText '' 0.6:''], '' Mouth open -> Yawning''),
      ([JText ''Head turned:''], '' Looking away -> Distracted'')]"

section \<open>The analysis pipeline (backend; not among the source files)\<close>

subsection \<open>Data model and configuration\<close>

text \<open>Modelled from the spec: the data model of section 3 (the five states, the
  configuration options of section 6, the metrics of a frame or the absence of a face,
  and the per-session classifier state with its four counters). The backend that
  declares them is not among the source files.\<close>

datatype behavior = Attentive | Drowsy | Yawning | Distracted | NoFace

record config =
  EAR_THRESH :: real
  MAR_THRESH :: real
  ANGLE_THRESH :: real
  CONSEC_FRAMES :: nat

text \<open>Modelled from the spec: the configuration defaults. The spec fixes \<open>EAR_THRESH = 0.22\<close>
  and \<open>MAR_THRESH = 0.6\<close> and leaves \<open>ANGLE_THRESH\<close> and \<open>CONSEC_FRAMES\<close> to the
  implementer, so these two are parameters.\<close>

definition default_config :: "real \<Rightarrow> nat \<Rightarrow> config" where
  "default_config angle consec =
     \<lparr>EAR_THRESH = 22 / 100, MAR_THRESH = 6 / 10, ANGLE_THRESH = angle, CONSEC_FRAMES = consec\<rparr>"

record metrics =
  metric_ear :: real
  metric_mar :: real
  head_deviation :: real
  timestamp :: nat

datatype observation = Absent | Present metrics

record session =
  state :: behavior
  noface_counter :: nat
  drowsy_counter :: nat
  yawning_counter :: nat
  distracted_counter :: nat
  last_transition :: nat

definition initial_session :: session where
  "initial_session =
     \<lparr>state = Attentive, noface_counter = 0, drowsy_counter = 0, yawning_counter = 0,
      distracted_counter = 0, last_transition = 0\<rparr>"

subsection \<open>StateClassifier\<close>

text \<open>Modelled from the spec: the three conditions of section 4.4 step 2.\<close>

definition drowsy_condition :: "config \<Rightarrow> metrics \<Rightarrow> bool" where
  "drowsy_condition cfg m = (metric_ear m < EAR_THRESH cfg)"

definition yawning_condition :: "config \<Rightarrow> metrics \<Rightarrow> bool" where
  "yawning_condition cfg m = (metric_mar m > MAR_THRESH cfg)"

definition distracted_condition :: "config \<Rightarrow> metrics \<Rightarrow> bool" where
  "distracted_condition cfg m = (head_deviation m > ANGLE_THRESH cfg)"

text \<open>Modelled from the spec: whether a frame qualifies for a condition (section 4.4
  steps 1 and 2): an absent frame qualifies for NoFace only, a frame with metrics for
  each of the three conditions that holds of them. No frame qualifies for Attentive.\<close>

fun qualifies :: "config \<Rightarrow> observation \<Rightarrow> behavior \<Rightarrow> bool" where
  "qualifies cfg Absent b = (b = NoFace)"
| "qualifies cfg (Present m) Drowsy = drowsy_condition cfg m"
| "qualifies cfg (Present m) Yawning = yawning_condition cfg m"
| "qualifies cfg (Present m) Distracted = distracted_condition cfg m"
| "qualifies cfg (Present m) NoFace = False"
| "qualifies cfg (Present m) Attentive = False"

fun counter_of :: "session \<Rightarrow> behavior \<Rightarrow> nat" where
  "counter_of s NoFace = noface_counter s"
| "counter_of s Drowsy = drowsy_counter s"
| "counter_of s Yawning = yawning_counter s"
| "counter_of s Distracted = distracted_counter s"
| "counter_of s Attentive = 0"

text \<open>Modelled from the spec: one counter over one frame, section 4.4 steps 1, 2 and 5.
  Steps 1 and 2 increment the counter on a qualifying frame and reset it on any other
  frame; taken alone they would leave a state on the first frame that does not qualify,
  which step 5 and the exit-hysteresis property of section 8 exclude. So steps 1 and 2
  are applied to the counters of the conditions that are not the state in force, and
  step 5 to the counter of the state in force (the triggering counter): a qualifying
  frame sets it to \<open>CONSEC_FRAMES\<close>, and every other frame lets it fall by one,
  starting from \<open>CONSEC_FRAMES\<close> at most, so that it is back at zero after
  \<open>CONSEC_FRAMES\<close> consecutive frames that do not qualify. An absent frame is such a
  frame for the three conditions: the reset of step 1 applies to the counters that are
  not the triggering one.\<close>

definition next_counter :: "config \<Rightarrow> bool \<Rightarrow> bool \<Rightarrow> nat \<Rightarrow> nat" where
  "next_counter cfg triggering qualifying n =
     (if triggering then
        (if qualifying then CONSEC_FRAMES cfg else min n (CONSEC_FRAMES cfg) - 1)
      else
        (if qualifying then Suc n else 0))"

definition update_counters :: "config \<Rightarrow> session \<Rightarrow> observation \<Rightarrow> session" where
  "update_counters cfg s obs =
     s\<lparr>noface_counter :=
         next_counter cfg (state s = NoFace) (qualifies cfg obs NoFace) (noface_counter s),
       drowsy_counter :=
         next_counter cfg (state s = Drowsy) (qualifies cfg obs Drowsy) (drowsy_counter s),
       yawning_counter :=
         next_counter cfg (state s = Yawning) (qualifies cfg obs Yawning) (yawning_counter s),
       distracted_counter :=
         next_counter cfg (state s = Distracted) (qualifies cfg obs Distracted)
           (distracted_counter s)\<rparr>"

text \<open>Modelled from the spec: a condition whose counter has reached \<open>CONSEC_FRAMES\<close>
  (steps 1, 3 and 4), and a condition that is in force: its counter has reached
  \<open>CONSEC_FRAMES\<close>, or it is the state held so far and its counter has not yet fallen
  back to zero (step 5). \<open>held\<close> is the state before the frame.\<close>

definition reached :: "config \<Rightarrow> session \<Rightarrow> behavior \<Rightarrow> bool" where
  "reached cfg s b = (b \<noteq> Attentive \<and> CONSEC_FRAMES cfg \<le> counter_of s b)"

definition in_force :: "config \<Rightarrow> behavior \<Rightarrow> session \<Rightarrow> behavior \<Rightarrow> bool" where
  "in_force cfg held s b =
     (b \<noteq> Attentive
      \<and> (CONSEC_FRAMES cfg \<le> counter_of s b \<or> (b = held \<and> 0 < counter_of s b)))"


text \<open>Modelled from the spec: the reported state, section 4.4 steps 3 to 5: the first
  condition in force in the order NoFace, Drowsy, Yawning, Distracted, and Attentive if
  none is.\<close>

definition reported_state :: "config \<Rightarrow> behavior \<Rightarrow> session \<Rightarrow> behavior" where
  "reported_state cfg held s =
     (if in_force cfg held s NoFace then NoFace
      else if in_force cfg held s Drowsy then Drowsy
      else if in_force cfg held s Yawning then Yawning
      else if in_force cfg held s Distracted then Distracted
      else Attentive)"

text \<open>Modelled from the spec: the StateClassifier's per-frame transition, section 4.4;
  \<open>ts\<close> is the frame's capture timestamp, kept as the time of the last transition when
  the state changes. NoFace is debounced like the other conditions, as step 1 says; the
  sentence of section 8 that lets any absent frame yield NoFace contradicts step 1 and
  is not followed.\<close>

definition classify :: "config \<Rightarrow> session \<Rightarrow> nat \<Rightarrow> observation \<Rightarrow> session" where
  "classify cfg s ts obs =
     (let c = update_counters cfg s obs; st = reported_state cfg (state s) c
      in c\<lparr>state := st, last_transition := (if st = state s then last_transition s else ts)\<rparr>)"

text \<open>Modelled from the spec: the classifier run over a stream of (timestamp,
  observation) pairs, one transition per frame in arrival order (section 5).\<close>

definition classify_all :: "config \<Rightarrow> session \<Rightarrow> (nat \<times> observation) list \<Rightarrow> session" where
  "classify_all cfg s obs = foldl (\<lambda>s (ts, ob). classify cfg s ts ob) s obs"

text \<open>Modelled from the spec: the state reported after each frame of a stream, in
  arrival order.\<close>

fun trace :: "config \<Rightarrow> session \<Rightarrow> (nat \<times> observation) list \<Rightarrow> behavior list" where
  "trace cfg s [] = []"
| "trace cfg s ((ts, ob) # xs) =
     state (classify cfg s ts ob) # trace cfg (classify cfg s ts ob) xs"







subsection \<open>FrameIngestor, ResultEmitter and the per-frame pipeline\<close>

text \<open>Modelled from the spec: the error of section 7 that frame ingestion raises, the
  decoded raster image, and the inbound frame of section 6.\<close>

datatype pipeline_error = DecodeError

type_synonym raster = "nat list"

record inbound_frame =
  frame_payload :: string
  capture_timestamp :: nat

text \<open>Modelled from the spec: the FrameIngestor, section 4.1. \<open>decode\<close> is the image
  decoder (\<open>None\<close> on a malformed payload); an empty payload fails before decoding.\<close>

definition ingest :: "(string \<Rightarrow> raster option) \<Rightarrow> string \<Rightarrow> pipeline_error + raster" where
  "ingest decode p =
     (if p = [] then Inl DecodeError
      else case decode p of None \<Rightarrow> Inl DecodeError | Some img \<Rightarrow> Inr img)"

text \<open>Modelled from the spec: the status of an outbound event is "one of the five state
  names" (section 6), the names of section 3.\<close>

fun status_name :: "behavior \<Rightarrow> string" where
  "status_name Attentive = ''Attentive''"
| "status_name Drowsy = ''Drowsy''"
| "status_name Yawning = ''Yawning''"
| "status_name Distracted = ''Distracted''"
| "status_name NoFace = ''NoFace''"

text \<open>Modelled from the spec: the ResultEmitter, sections 4.5 and 6: the outbound event
  \<open>{status, ear_score, mar_score}\<close>. The spec gives no scores for an absent face; they are
  0 here.\<close>

definition emit_result :: "session \<Rightarrow> observation \<Rightarrow> status_update" where
  "emit_result s obs =
     \<lparr>status = status_name (state s),
      ear_score = (case obs of Absent \<Rightarrow> 0 | Present m \<Rightarrow> metric_ear m),
      mar_score = (case obs of Absent \<Rightarrow> 0 | Present m \<Rightarrow> metric_mar m)\<rparr>"

text \<open>Modelled from the spec: one frame through the pipeline of section 2. \<open>analyse\<close> is
  the LandmarkProvider followed by the MetricComputer. A frame that fails to decode is
  dropped: the session is returned as it was and nothing is emitted.\<close>

definition process_frame ::
  "(string \<Rightarrow> raster option) \<Rightarrow> (raster \<Rightarrow> observation) \<Rightarrow> config \<Rightarrow> session \<Rightarrow> inbound_frame
     \<Rightarrow> session \<times> status_update option" where
  "process_frame decode analyse cfg s f =
     (case ingest decode (frame_payload f) of
        Inl e \<Rightarrow> (s, None)
      | Inr img \<Rightarrow>
          (let obs = analyse img; s' = classify cfg s (capture_timestamp f) obs
           in (s', Some (emit_result s' obs))))"

text \<open>Modelled from the spec: the pipeline over the frames of a session, processed
  strictly one after the other (section 5); it returns the final session and the events
  emitted, in order.\<close>

fun run_pipeline ::
  "(string \<Rightarrow> raster option) \<Rightarrow> (raster \<Rightarrow> observation) \<Rightarrow> config \<Rightarrow> session
     \<Rightarrow> inbound_frame list \<Rightarrow> session \<times> status_update list" where
  "run_pipeline decode analyse cfg s [] = (s, [])"
| "run_pipeline decode analyse cfg s (f # fs) =
     (case process_frame decode analyse cfg s f of
        (s', out) \<Rightarrow>
          (case run_pipeline decode analyse cfg s' fs of
             (s'', outs) \<Rightarrow> (s'', (case out of None \<Rightarrow> [] | Some ev \<Rightarrow> [ev]) @ outs)))"

section \<open>Properties of the dashboard client\<close>

subsection \<open>Chart data\<close>

lemma length_setChartData:
  "length (setChartData prevData p) = min MAX_CHART_POINTS (Suc (length prevData))"
  by (simp add: setChartData_def slice_from_end_def)

lemma exec_snoc: "exec (evs @ [e]) = fst (step (exec evs) e)"
  by (simp add: exec_def)

lemma chartData_step:
  "chartData (fst (step s e))
     = (case e of
          StatusUpdate t d \<Rightarrow>
            setChartData (chartData s) (new_chart_point t d)
        | _ \<Rightarrow> chartData s)"
  by (cases e)
    (simp_all add: on_status_update_def toggleStreaming_def setInterval_def handleLogout_def
      clear_capture_interval_def clearInterval_def split: option.splits)

lemma length_chartData_exec:
  "length (chartData (exec evs)) = min MAX_CHART_POINTS (length (filter is_status_update evs))"
proof (induction evs rule: rev_induct)
  case Nil
  show ?case by (simp add: exec_def initial_state_def)
next
  case (snoc e evs)
  show ?case
    using snoc.IH
    by (cases e) (simp_all add: exec_snoc chartData_step length_setChartData del: step.simps)
qed

text \<open>
  Claim C9. The chart list of the component never holds more than
  \<open>MAX_CHART_POINTS = 30\<close> entries. In every state, the \<open>status_update\<close> handler replaces
  \<open>chartData\<close> by the previous list with the new entry appended, cut to its last 30
  elements: the new list is a suffix of the appended list (arrival order kept), its last
  element is the entry of this event, and its length is the smaller of 30 and the
  appended length. In the state reached after any sequence of events, the length of
  \<open>chartData\<close> is the smaller of 30 and the number of \<open>status_update\<close> events so far.
\<close>

theorem chart_data_bounded:
  "MAX_CHART_POINTS = 30
   \<and> chartData (fst (step s (StatusUpdate t d)))
       = drop (length (chartData s) + 1 - 30) (chartData s @ [new_chart_point t d])
   \<and> suffix (chartData (fst (step s (StatusUpdate t d))))
       (chartData s @ [new_chart_point t d])
   \<and> last (chartData (fst (step s (StatusUpdate t d)))) = new_chart_point t d
   \<and> length (chartData (fst (step s (StatusUpdate t d))))
       = min 30 (length (chartData s) + 1)
   \<and> length (chartData (fst (step s (StatusUpdate t d)))) \<le> 30
   \<and> length (chartData (exec evs)) = min 30 (length (filter is_status_update evs))
   \<and> length (chartData (exec evs)) \<le> 30
   \<and> chartData (exec (evs @ [StatusUpdate t d]))
       = drop (length (chartData (exec evs)) + 1 - 30)
           (chartData (exec evs) @ [new_chart_point t d])"
proof -
  let ?p = "new_chart_point t d"
  have st: "chartData (fst (step s' (StatusUpdate t d)))
      = drop (length (chartData s') + 1 - 30) (chartData s' @ [?p])" for s'
    by (simp add: chartData_step setChartData_def slice_from_end_def MAX_CHART_POINTS_def
        del: step.simps)
  have suf: "suffix (chartData (fst (step s (StatusUpdate t d)))) (chartData s @ [?p])"
    unfolding st by (rule suffix_drop)
  have lst: "last (chartData (fst (step s (StatusUpdate t d)))) = ?p"
    unfolding st by simp
  have len: "length (chartData (fst (step s (StatusUpdate t d))))
      = min 30 (length (chartData s) + 1)"
    unfolding st by simp
  have run: "length (chartData (exec evs)) = min 30 (length (filter is_status_update evs))"
    by (simp add: length_chartData_exec MAX_CHART_POINTS_def)
  have nxt: "chartData (exec (evs @ [StatusUpdate t d]))
      = drop (length (chartData (exec evs)) + 1 - 30) (chartData (exec evs) @ [?p])"
    by (simp only: exec_snoc st)
  show ?thesis
    using st [of s] suf lst len run nxt by (simp add: MAX_CHART_POINTS_def)
qed

subsection \<open>Attentiveness score\<close>

text \<open>
  Claim C8. The comment above the computation announces a score between 0 and 100, and
  the chart's axis is fixed to that range. The Drowsy branch is \<open>max 20 (ear_score * 200)\<close>
  with no upper clamp: for the event \<open>{status: 'Drowsy', ear_score: 0.75, mar_score: 0}\<close>,
  whose scores are both non-negative, the handler computes 150, and the chart point
  stores 150.
\<close>

theorem drowsy_score_above_100:
  "0 \<le> ear_score \<lparr>status = ''Drowsy'', ear_score = 3 / 4, mar_score = 0\<rparr>
   \<and> 0 \<le> mar_score \<lparr>status = ''Drowsy'', ear_score = 3 / 4, mar_score = 0\<rparr>
   \<and> attentivenessScore \<lparr>status = ''Drowsy'', ear_score = 3 / 4, mar_score = 0\<rparr> = 150
   \<and> score (new_chart_point t \<lparr>status = ''Drowsy'', ear_score = 3 / 4, mar_score = 0\<rparr>) = 150"
  by (simp add: attentivenessScore_def new_chart_point_def Math_round_def)

subsection \<open>Status names\<close>

text \<open>
  Claim C1, as stated, fails: the fifth name the client knows is \<open>No Face Detected\<close>, not
  \<open>NoFace\<close>. \<open>NoFace\<close> is no key of \<open>STATUS_COLORS\<close>, and an event with that status is
  scored 100 like an attentive one, while \<open>No Face Detected\<close> is a key and is scored 0.
\<close>

theorem noface_name_counterexample:
  "set (map fst STATUS_COLORS)
     \<noteq> {''Attentive'', ''Drowsy'', ''Yawning'', ''Distracted'', ''NoFace''}
   \<and> ''NoFace'' \<notin> set (map fst STATUS_COLORS)
   \<and> attentivenessScore \<lparr>status = ''NoFace'', ear_score = 0, mar_score = 0\<rparr> = 100
   \<and> ''No Face Detected'' \<in> set (map fst STATUS_COLORS)
   \<and> attentivenessScore \<lparr>status = ''No Face Detected'', ear_score = 0, mar_score = 0\<rparr> = 0"
proof -
  have "''No Face Detected'' \<in> set (map fst STATUS_COLORS)"
    by (simp add: STATUS_COLORS_def)
  moreover have
    "''No Face Detected'' \<notin> {''Attentive'', ''Drowsy'', ''Yawning'', ''Distracted'', ''NoFace''}"
    by simp
  ultimately have
    "set (map fst STATUS_COLORS)
       \<noteq> {''Attentive'', ''Drowsy'', ''Yawning'', ''Distracted'', ''NoFace''}"
    by metis
  then show ?thesis
    by (simp add: STATUS_COLORS_def attentivenessScore_def)
qed

text \<open>
  Claim C1, amended. An outbound result event is the record of the three fields \<open>status\<close>,
  \<open>ear_score\<close>, \<open>mar_score\<close>, and the status of every event the emitter produces is one of
  the five state names Attentive, Drowsy, Yawning, Distracted, NoFace. The names the
  client consumes are Attentive, Drowsy, Yawning, Distracted and \<open>No Face Detected\<close> in
  the place of NoFace: these five, and no others, are the keys of its colour table, and
  an event gets a score other than the default 100 only under one of the last four of
  them.
\<close>

theorem status_names_consumed:
  "status (emit_result s obs) \<in> {''Attentive'', ''Drowsy'', ''Yawning'', ''Distracted'', ''NoFace''}
   \<and> set (map fst STATUS_COLORS)
       = {''Attentive'', ''Drowsy'', ''Yawning'', ''Distracted'', ''No Face Detected''}
   \<and> distinct (map fst STATUS_COLORS)
   \<and> (attentivenessScore d \<noteq> 100 \<longrightarrow>
        status d \<in> {''Drowsy'', ''Yawning'', ''Distracted'', ''No Face Detected''})"
proof -
  have em: "status (emit_result s obs)
      \<in> {''Attentive'', ''Drowsy'', ''Yawning'', ''Distracted'', ''NoFace''}"
    by (cases "state s") (simp_all add: emit_result_def)
  have keys: "set (map fst STATUS_COLORS)
      = {''Attentive'', ''Drowsy'', ''Yawning'', ''Distracted'', ''No Face Detected''}"
    by (simp add: STATUS_COLORS_def)
  have dist: "distinct (map fst STATUS_COLORS)"
    by (simp add: STATUS_COLORS_def)
  have sc: "attentivenessScore d \<noteq> 100 \<longrightarrow>
        status d \<in> {''Drowsy'', ''Yawning'', ''Distracted'', ''No Face Detected''}"
    by (auto simp: attentivenessScore_def split: if_splits)
  from em keys dist sc show ?thesis by blast
qed

theorem status_names_consumed_witness:
  "attentivenessScore \<lparr>status = ''Distracted'', ear_score = 1 / 4, mar_score = 1 / 2\<rparr> \<noteq> 100
   \<and> status \<lparr>status = ''Distracted'', ear_score = 1 / 4, mar_score = 1 / 2\<rparr>
       \<in> {''Drowsy'', ''Yawning'', ''Distracted'', ''No Face Detected''}
   \<and> status (emit_result initial_session Absent)
       \<in> {''Attentive'', ''Drowsy'', ''Yawning'', ''Distracted'', ''NoFace''}"
proof -
  have h: "attentivenessScore \<lparr>status = ''Distracted'', ear_score = 1 / 4, mar_score = 1 / 2\<rparr>
      \<noteq> 100"
    by (simp add: attentivenessScore_def)
  from h status_names_consumed [of initial_session Absent
      "\<lparr>status = ''Distracted'', ear_score = 1 / 4, mar_score = 1 / 2\<rparr>"]
  show ?thesis by blast
qed

subsection \<open>The info box\<close>

text \<open>
  Claim C6. The info box shown to the user reads \<open>EAR < 0.22:\<close> for the drowsy condition
  and \<open>MAR > 0.6:\<close> for the yawning condition, and these are the default thresholds and
  the comparison directions of the classifier's conditions: with the default
  configuration, the drowsy condition is \<open>ear < 0.22\<close> and the yawning condition is
  \<open>mar > 0.6\<close>.
\<close>

theorem info_box_documents_thresholds:
  "map (render \<circ> fst) info_box = [''EAR < 0.22:'', ''MAR > 0.6:'', ''Head turned:'']
   \<and> map snd info_box
       = ['' Eyes closing -> Drowsy'', '' Mouth open -> Yawning'',
          '' Looking away -> Distracted'']
   \<and> EAR_THRESH (default_config angle consec) = 22 / 100
   \<and> MAR_THRESH (default_config angle consec) = 6 / 10
   \<and> drowsy_condition (default_config angle consec) m = (metric_ear m < 22 / 100)
   \<and> yawning_condition (default_config angle consec) m = (metric_mar m > 6 / 10)"
  by (simp add: info_box_def render_def default_config_def drowsy_condition_def
      yawning_condition_def)

subsection \<open>Streaming\<close>

lemma inv_initial: "streaming_inv initial_state"
  by (simp add: streaming_inv_def initial_state_def)

lemma inv_clear:
  "streaming_inv s \<Longrightarrow>
     timers (clear_capture_interval s) = []
     \<and> captureIntervalRef (clear_capture_interval s) = None
     \<and> next_timer (clear_capture_interval s) = next_timer s
     \<and> webcamRef (clear_capture_interval s) = webcamRef s
     \<and> socketRef (clear_capture_interval s) = socketRef s"
  by (auto simp: streaming_inv_def clear_capture_interval_def clearInterval_def
      split: option.splits)

lemma inv_toggle: "streaming_inv s \<Longrightarrow> streaming_inv (toggleStreaming s)"
  using inv_clear [of s]
  by (auto simp: streaming_inv_def toggleStreaming_def setInterval_def split: option.splits)

lemma inv_logout: "streaming_inv s \<Longrightarrow> streaming_inv (handleLogout s)"
proof -
  assume a: "streaming_inv s"
  then have "streaming_inv (s\<lparr>isLoggedIn := False\<rparr>)"
    by (simp add: streaming_inv_def)
  from inv_clear [OF this] a show ?thesis
    by (simp add: streaming_inv_def handleLogout_def)
qed

lemma inv_step: "streaming_inv s \<Longrightarrow> streaming_inv (fst (step s e))"
proof (cases e)
  case ClickToggle
  then show "streaming_inv s \<Longrightarrow> ?thesis" by (simp add: inv_toggle)
next
  case ClickLogout
  then show "streaming_inv s \<Longrightarrow> ?thesis" by (simp add: inv_logout)
qed (auto simp: streaming_inv_def on_status_update_def split: option.splits)

lemma inv_exec: "streaming_inv (exec evs)"
proof (induction evs rule: rev_induct)
  case Nil
  show ?case by (simp add: exec_def inv_initial)
next
  case (snoc e evs)
  then show ?case by (simp add: exec_snoc inv_step)
qed

lemma stopped_step:
  "streaming_inv s \<Longrightarrow> \<not> isStreaming s \<Longrightarrow> e \<noteq> ClickToggle \<Longrightarrow>
     snd (step s e) = [] \<and> \<not> isStreaming (fst (step s e))"
  by (cases e)
    (auto simp: streaming_inv_def on_status_update_def handleLogout_def split: option.splits)

lemma stopped_run:
  "streaming_inv s \<Longrightarrow> \<not> isStreaming s \<Longrightarrow> ClickToggle \<notin> set es \<Longrightarrow> run s es = []"
proof (induction es arbitrary: s)
  case Nil
  show ?case by simp
next
  case (Cons e es)
  then have ne: "e \<noteq> ClickToggle" by auto
  from stopped_step [OF Cons.prems(1,2) ne] inv_step [OF Cons.prems(1), of e]
    Cons.IH Cons.prems(3)
  show ?case by auto
qed

lemma emit_only_streaming:
  "streaming_inv s \<Longrightarrow> snd (step s e) \<noteq> [] \<Longrightarrow>
     isStreaming s \<and> socketRef s = Some True
     \<and> (\<exists>h img. e = Tick h (Some img) \<and> img \<noteq> [] \<and> captureIntervalRef s = Some h
          \<and> snd (step s e) = [video_frame img])"
  by (cases e) (auto simp: streaming_inv_def captureFrame_def split: option.splits if_splits)

lemma tick_while_streaming:
  "streaming_inv s \<Longrightarrow> isStreaming s \<Longrightarrow> socketRef s = Some True \<Longrightarrow>
     \<exists>h. captureIntervalRef s = Some h \<and> timers s = [(h, 200)]
       \<and> step s (Tick h shot)
           = (s, case shot of None \<Rightarrow> []
                 | Some img \<Rightarrow> if img \<noteq> [] then [video_frame img] else [])"
  by (auto simp: streaming_inv_def captureFrame_def split: option.splits)

lemmas exec_eval =
  exec_def initial_state_def toggleStreaming_def setInterval_def captureFrame_def
  clear_capture_interval_def clearInterval_def handleLogout_def

text \<open>
  Claim C5, as stated, fails: after mounting, connecting and starting the stream, the
  capture interval is active and the socket is connected, yet a tick on which the webcam
  returns no screenshot emits nothing.
\<close>

theorem tick_without_frame_counterexample:
  "isStreaming (exec [Mount False, SocketConnect, ClickToggle])
   \<and> socketRef (exec [Mount False, SocketConnect, ClickToggle]) = Some True
   \<and> timers (exec [Mount False, SocketConnect, ClickToggle]) = [(1, 200)]
   \<and> snd (step (exec [Mount False, SocketConnect, ClickToggle]) (Tick 1 None)) = []"
  by (simp add: exec_eval)

text \<open>
  Claim C5, amended. While streaming is active and the socket is connected, exactly one
  capture interval is running, with period 200 ms, and each of its ticks emits at most
  one \<open>video_frame\<close> event: exactly one, whose single field \<open>frame\<close> holds the screenshot
  the webcam returned, when that screenshot is neither null nor empty, and none
  otherwise. The tick changes no state.
\<close>

theorem one_video_frame_per_tick:
  assumes "isStreaming (exec evs)" and "socketRef (exec evs) = Some True"
  shows "\<exists>h. captureIntervalRef (exec evs) = Some h \<and> timers (exec evs) = [(h, 200)]
           \<and> step (exec evs) (Tick h shot)
               = (exec evs, case shot of None \<Rightarrow> []
                            | Some img \<Rightarrow> if img \<noteq> [] then [video_frame img] else [])
           \<and> length (snd (step (exec evs) (Tick h shot))) \<le> 1"
proof -
  from tick_while_streaming [OF inv_exec assms, of shot]
  obtain h where h: "captureIntervalRef (exec evs) = Some h" "timers (exec evs) = [(h, 200)]"
    "step (exec evs) (Tick h shot)
       = (exec evs, case shot of None \<Rightarrow> []
                    | Some img \<Rightarrow> if img \<noteq> [] then [video_frame img] else [])"
    by blast
  have "length (snd (step (exec evs) (Tick h shot))) \<le> 1"
    unfolding h(3) by (simp split: option.splits)
  with h show ?thesis by blast
qed

theorem one_video_frame_per_tick_witness:
  "isStreaming (exec [Mount False, SocketConnect, ClickToggle])
   \<and> socketRef (exec [Mount False, SocketConnect, ClickToggle]) = Some True
   \<and> timers (exec [Mount False, SocketConnect, ClickToggle]) = [(1, 200)]
   \<and> snd (step (exec [Mount False, SocketConnect, ClickToggle])
             (Tick 1 (Some ''data:image/jpeg;base64,AAAA'')))
       = [video_frame ''data:image/jpeg;base64,AAAA'']"
proof -
  let ?evs = "[Mount False, SocketConnect, ClickToggle]"
  have a: "isStreaming (exec ?evs)" by (simp add: exec_eval)
  have b: "socketRef (exec ?evs) = Some True" by (simp add: exec_eval)
  have c: "captureIntervalRef (exec ?evs) = Some 1" by (simp add: exec_eval)
  from one_video_frame_per_tick [OF a b, of "Some ''data:image/jpeg;base64,AAAA''"] c
  have "timers (exec ?evs) = [(1, 200)]
      \<and> snd (step (exec ?evs) (Tick 1 (Some ''data:image/jpeg;base64,AAAA'')))
          = [video_frame ''data:image/jpeg;base64,AAAA'']"
    by auto
  with a b show ?thesis by blast
qed

text \<open>
  Claim C10. \<open>captureFrame\<close> emits nothing when the socket is absent or disconnected or
  when the screenshot is null. In every state the component reaches, an event is emitted
  only by a tick of the capture interval while streaming is on and the socket is
  connected. Logout always, and the toggle when streaming is on, leave streaming off
  with no interval in the timer table; and from a state with streaming off, no sequence
  of events without a new toggle emits anything.
\<close>

theorem no_video_frame_when_stopped:
  "(socketRef s0 \<noteq> Some True \<or> shot = None \<longrightarrow> captureFrame s0 shot = [])
   \<and> (snd (step (exec evs1) e) \<noteq> [] \<longrightarrow>
        isStreaming (exec evs1) \<and> socketRef (exec evs1) = Some True
        \<and> (\<exists>h img. e = Tick h (Some img) \<and> img \<noteq> []
             \<and> captureIntervalRef (exec evs1) = Some h))
   \<and> \<not> isStreaming (exec (evs2 @ [ClickLogout]))
   \<and> timers (exec (evs2 @ [ClickLogout])) = []
   \<and> (isStreaming (exec evs2) \<longrightarrow>
        \<not> isStreaming (exec (evs2 @ [ClickToggle]))
        \<and> timers (exec (evs2 @ [ClickToggle])) = [])
   \<and> (\<not> isStreaming (exec evs3) \<and> ClickToggle \<notin> set es \<longrightarrow> run (exec evs3) es = [])"
proof -
  have c1: "socketRef s0 \<noteq> Some True \<or> shot = None \<longrightarrow> captureFrame s0 shot = []"
    by (auto simp: captureFrame_def)
  have c2: "snd (step (exec evs1) e) \<noteq> [] \<longrightarrow>
        isStreaming (exec evs1) \<and> socketRef (exec evs1) = Some True
        \<and> (\<exists>h img. e = Tick h (Some img) \<and> img \<noteq> []
             \<and> captureIntervalRef (exec evs1) = Some h)"
    using emit_only_streaming [OF inv_exec, of evs1 e] by blast
  have lo: "timers (handleLogout (exec evs2)) = [] \<and> \<not> isStreaming (handleLogout (exec evs2))"
  proof -
    have "streaming_inv ((exec evs2)\<lparr>isLoggedIn := False\<rparr>)"
      using inv_exec [of evs2] by (simp add: streaming_inv_def)
    from inv_clear [OF this] show ?thesis by (simp add: handleLogout_def)
  qed
  have c3: "\<not> isStreaming (exec (evs2 @ [ClickLogout]))
      \<and> timers (exec (evs2 @ [ClickLogout])) = []"
    using lo by (simp add: exec_snoc)
  have c4: "isStreaming (exec evs2) \<longrightarrow>
        \<not> isStreaming (exec (evs2 @ [ClickToggle]))
        \<and> timers (exec (evs2 @ [ClickToggle])) = []"
    using inv_clear [OF inv_exec, of evs2] by (simp add: exec_snoc toggleStreaming_def)
  have c5: "\<not> isStreaming (exec evs3) \<and> ClickToggle \<notin> set es \<longrightarrow> run (exec evs3) es = []"
    using stopped_run [OF inv_exec, of evs3 es] by blast
  from c1 c2 c3 c4 c5 show ?thesis by blast
qed

theorem no_video_frame_when_stopped_witness:
  "socketRef initial_state \<noteq> Some True
   \<and> captureFrame initial_state (Some ''data:image/jpeg;base64,AAAA'') = []
   \<and> snd (step (exec [Mount False, SocketConnect, ClickToggle]) (Tick 1 (Some ''AAAA''))) \<noteq> []
   \<and> socketRef (exec [Mount False, SocketConnect, ClickToggle]) = Some True
   \<and> isStreaming (exec [Mount False, SocketConnect, ClickToggle])
   \<and> timers (exec ([Mount False, SocketConnect, ClickToggle] @ [ClickToggle])) = []
   \<and> \<not> isStreaming (exec [Mount False, SocketConnect, ClickToggle, ClickToggle])
   \<and> ClickToggle \<notin> set [Tick 1 (Some ''AAAA''), SocketDisconnect, Tick 1 None]
   \<and> run (exec [Mount False, SocketConnect, ClickToggle, ClickToggle])
         [Tick 1 (Some ''AAAA''), SocketDisconnect, Tick 1 None] = []"
proof -
  let ?on = "[Mount False, SocketConnect, ClickToggle]"
  let ?off = "[Mount False, SocketConnect, ClickToggle, ClickToggle]"
  let ?es = "[Tick 1 (Some ''AAAA''), SocketDisconnect, Tick 1 None]"
  have h1: "socketRef initial_state \<noteq> Some True" by (simp add: initial_state_def)
  have h2: "snd (step (exec ?on) (Tick 1 (Some ''AAAA''))) \<noteq> []" by (simp add: exec_eval)
  have h3: "isStreaming (exec ?on)" by (simp add: exec_eval)
  have h4: "\<not> isStreaming (exec ?off)" by (simp add: exec_eval)
  have h5: "ClickToggle \<notin> set ?es" by simp
  from no_video_frame_when_stopped
    [of initial_state "Some ''data:image/jpeg;base64,AAAA''" ?on "Tick 1 (Some ''AAAA'')"
        ?on ?off ?es]
    h1 h2 h3 h4 h5
  show ?thesis by blast
qed

section \<open>Properties of the analysis pipeline\<close>

subsection \<open>One step of the classifier\<close>

















lemmas stream_eval =
  classify_def Let_def update_counters_def next_counter_def reported_state_def in_force_def
  reached_def classify_all_def default_config_def initial_session_def drowsy_condition_def
  yawning_condition_def distracted_condition_def

text \<open>The exit window on an example with \<open>CONSEC_FRAMES = 3\<close>: three frames with a low
  EAR enter Drowsy on the third, and three frames with a normal EAR leave it on the
  third.\<close>

lemma exit_hysteresis_example:
  "trace (default_config 20 3) initial_session
     [(1, Present \<lparr>metric_ear = 1 / 10, metric_mar = 1 / 10, head_deviation = 0,
                   timestamp = 1\<rparr>),
      (2, Present \<lparr>metric_ear = 1 / 10, metric_mar = 1 / 10, head_deviation = 0,
                   timestamp = 2\<rparr>),
      (3, Present \<lparr>metric_ear = 1 / 10, metric_mar = 1 / 10, head_deviation = 0,
                   timestamp = 3\<rparr>),
      (4, Present \<lparr>metric_ear = 3 / 10, metric_mar = 1 / 10, head_deviation = 0,
                   timestamp = 4\<rparr>),
      (5, Present \<lparr>metric_ear = 3 / 10, metric_mar = 1 / 10, head_deviation = 0,
                   timestamp = 5\<rparr>),
      (6, Present \<lparr>metric_ear = 3 / 10, metric_mar = 1 / 10, head_deviation = 0,
                   timestamp = 6\<rparr>)]
   = [Attentive, Attentive, Drowsy, Drowsy, Drowsy, Attentive]"
  by (simp add: stream_eval)

subsection \<open>Debounce\<close>















subsection \<open>Priority\<close>












subsection \<open>Decode errors\<close>

lemma bad_payload_dropped:
  "frame_payload f = [] \<or> decode (frame_payload f) = None \<Longrightarrow>
     ingest decode (frame_payload f) = Inl DecodeError
     \<and> process_frame decode analyse cfg s f = (s, None)"
  by (auto simp: ingest_def process_frame_def)

lemma run_pipeline_skip:
  "process_frame decode analyse cfg (fst (run_pipeline decode analyse cfg s fs1)) f
     = (fst (run_pipeline decode analyse cfg s fs1), None) \<Longrightarrow>
   run_pipeline decode analyse cfg s (fs1 @ f # fs2)
     = run_pipeline decode analyse cfg s (fs1 @ fs2)"
proof (induction fs1 arbitrary: s)
  case Nil
  then show ?case by (simp split: prod.splits)
next
  case (Cons a fs1)
  obtain s' out where p: "process_frame decode analyse cfg s a = (s', out)"
    by (cases "process_frame decode analyse cfg s a")
  from Cons.prems
  have "process_frame decode analyse cfg (fst (run_pipeline decode analyse cfg s' fs1)) f
      = (fst (run_pipeline decode analyse cfg s' fs1), None)"
    by (simp add: p split: prod.splits)
  from Cons.IH [OF this] show ?case by (simp add: p)
qed

text \<open>
  Claim C7. For a frame whose payload is empty or does not decode, ingestion fails with
  \<open>DecodeError\<close>; the frame is dropped: the session (state and counters) is returned
  unchanged and no event is emitted, so nothing reaches the user. The pipeline goes on:
  a stream containing such a frame leaves the same session and the same emitted events
  as the stream without it.
\<close>

theorem decode_error_drops_frame:
  assumes "frame_payload f = [] \<or> decode (frame_payload f) = None"
  shows "ingest decode (frame_payload f) = Inl DecodeError
       \<and> process_frame decode analyse cfg s f = (s, None)
       \<and> run_pipeline decode analyse cfg s (fs1 @ f # fs2)
           = run_pipeline decode analyse cfg s (fs1 @ fs2)"
proof -
  have a: "ingest decode (frame_payload f) = Inl DecodeError"
    using bad_payload_dropped [of f decode analyse cfg s] assms by blast
  have b: "process_frame decode analyse cfg s' f = (s', None)" for s'
    using bad_payload_dropped [of f decode analyse cfg s'] assms by blast
  have c: "run_pipeline decode analyse cfg s (fs1 @ f # fs2)
      = run_pipeline decode analyse cfg s (fs1 @ fs2)"
    by (rule run_pipeline_skip) (rule b)
  from a b c show ?thesis by blast
qed

theorem decode_error_drops_frame_witness:
  "frame_payload \<lparr>frame_payload = [], capture_timestamp = 7\<rparr> = []
   \<and> ingest (\<lambda>p. if p = ''ok'' then Some [1, 2, 3] else None)
       (frame_payload \<lparr>frame_payload = [], capture_timestamp = 7\<rparr>) = Inl DecodeError
   \<and> process_frame (\<lambda>p. if p = ''ok'' then Some [1, 2, 3] else None) (\<lambda>img. Absent)
       (default_config 20 2) initial_session \<lparr>frame_payload = [], capture_timestamp = 7\<rparr>
       = (initial_session, None)
   \<and> run_pipeline (\<lambda>p. if p = ''ok'' then Some [1, 2, 3] else None) (\<lambda>img. Absent)
       (default_config 20 2) initial_session
       ([\<lparr>frame_payload = ''ok'', capture_timestamp = 6\<rparr>]
        @ \<lparr>frame_payload = [], capture_timestamp = 7\<rparr>
        # [\<lparr>frame_payload = ''ok'', capture_timestamp = 8\<rparr>])
     = run_pipeline (\<lambda>p. if p = ''ok'' then Some [1, 2, 3] else None) (\<lambda>img. Absent)
       (default_config 20 2) initial_session
       ([\<lparr>frame_payload = ''ok'', capture_timestamp = 6\<rparr>]
        @ [\<lparr>frame_payload = ''ok'', capture_timestamp = 8\<rparr>])"
proof -
  let ?f = "\<lparr>frame_payload = [], capture_timestamp = 7\<rparr>"
  let ?dec = "\<lambda>p. if p = ''ok'' then Some [1, 2, 3 :: nat] else None"
  have e: "frame_payload ?f = []"
    by simp
  then have h: "frame_payload ?f = [] \<or> ?dec (frame_payload ?f) = None"
    by blast
  from decode_error_drops_frame [of ?f ?dec "\<lambda>img. Absent" "default_config 20 2"
      initial_session "[\<lparr>frame_payload = ''ok'', capture_timestamp = 6\<rparr>]"
      "[\<lparr>frame_payload = ''ok'', capture_timestamp = 8\<rparr>]", OF h] e
  show ?thesis by blast
qed

end

